theory Spec2Isabelle
  imports Complex_Main "HOL-Library.Word"
begin

section \<open>JavaScript string operations used by the sources\<close>

text \<open>
  Strings are lists of characters. \<open>split_on c s\<close> is \<^verbatim>\<open>s.split(c)\<close> for a
  one-character separator: it always returns at least one segment, and the empty string
  gives the single empty segment. \<open>join_with sep xs\<close> is \<^verbatim>\<open>xs.join(sep)\<close>.
\<close>

fun split_on :: "char \<Rightarrow> string \<Rightarrow> string list" where
  "split_on c [] = [[]]"
| "split_on c (x # xs) =
     (if x = c then [] # split_on c xs
      else (case split_on c xs of [] \<Rightarrow> [[x]] | y # ys \<Rightarrow> (x # y) # ys))"

fun join_with :: "string \<Rightarrow> string list \<Rightarrow> string" where
  "join_with sep [] = []"
| "join_with sep [x] = x"
| "join_with sep (x # y # ys) = x @ sep @ join_with sep (y # ys)"

section \<open>Suggested output filename (App.vue and the server page, startConversion)\<close>

text \<open>
  \<^verbatim>\<open>
  const nameParts = file.value.name.split('.')
  if (nameParts.length > 1) nameParts.pop()
  resultFilename.value = nameParts.join('.') + '.md'
  \<close>
\<close>

definition suggestedFilename :: "string \<Rightarrow> string" where
  "suggestedFilename filename =
     (let nameParts = split_on CHR ''.'' filename;
          nameParts' = (if length nameParts > 1 then butlast nameParts else nameParts)
      in join_with ''.'' nameParts' @ ''.md'')"

section \<open>Values shared by both deployment shapes\<close>

text \<open>
  A thrown JavaScript error, with its \<^verbatim>\<open>name\<close> and \<^verbatim>\<open>message\<close>. A byte buffer
  (\<^verbatim>\<open>Uint8Array\<close>) is a list of 8-bit words. A filesystem is a map from paths to
  file contents.
\<close>

datatype js_error = JsError (err_name: string) (message: string)

type_synonym bytes = "8 word list"

type_synonym filesystem = "string \<rightharpoonup> bytes"


text \<open>\<^verbatim>\<open>xs.pop()\<close> read for its value: the last element, \<^verbatim>\<open>undefined\<close> on an empty array.\<close>

definition pop :: "'a list \<Rightarrow> 'a option" where
  "pop xs = (if xs = [] then None else Some (last xs))"

section \<open>Environment provisioner (App.vue, loadPyodideEnvironment)\<close>

text \<open>
  The calls the provisioner makes into the Pyodide runtime, in source order:
  \<^verbatim>\<open>loadPyodide()\<close>, \<^verbatim>\<open>loadPackage("micropip")\<close>, \<^verbatim>\<open>pyimport("micropip")\<close>, the
  \<^verbatim>\<open>runPython\<close> that installs the mock modules, \<^verbatim>\<open>loadPackage([...])\<close>,
  \<^verbatim>\<open>micropip.install([...])\<close>, the \<^verbatim>\<open>runPythonAsync\<close> that installs markitdown, and
  the \<^verbatim>\<open>runPython\<close> that defines \<^verbatim>\<open>convert_file\<close>.
\<close>

datatype step =
    LoadPyodide | LoadMicropip | ImportMicropip | InstallMocks
  | LoadPackages | InstallOptionalDeps | InstallMarkitdown | RegisterWrapper

text \<open>
  The runtime object: its identity, the provisioning calls that have completed on it,
  and its in-memory filesystem \<^verbatim>\<open>FS\<close>.
\<close>

record runtime =
  rid :: nat
  completed :: "step list"
  FS :: filesystem

text \<open>
  What the outside world does during one call of the provisioner: the identity of the
  runtime \<^verbatim>\<open>loadPyodide()\<close> would create, and the error each call would throw, if any.
\<close>

record world =
  fresh_rid :: nat
  faults :: "step \<rightharpoonup> js_error"

record js_file =
  name :: string
  content :: bytes

text \<open>
  The module-level state of App.vue. \<open>file_ref\<close> is \<^verbatim>\<open>const file = ref<File | null>(null)\<close>
  (\<open>file\<close> is reserved in Isabelle); \<open>pyodide\<close> is the module variable
  \<^verbatim>\<open>let pyodide: any = null\<close>; \<open>calls\<close> is the trace of the calls made into the
  runtime so far; \<open>console\<close> and \<open>alerts\<close> collect what is logged and alerted.
\<close>

record app_state =
  file_ref :: "js_file option"
  isProcessing :: bool
  isDownloadingModel :: bool
  resultText :: string
  resultFilename :: string
  pyodide :: "runtime option"
  calls :: "step list"
  console :: "string list"
  alerts :: "string list"

text \<open>\<^verbatim>\<open>await loadPyodide()\<close>: a fresh runtime, or the error thrown.\<close>

definition loadPyodide :: "world \<Rightarrow> app_state \<Rightarrow> (js_error + runtime) \<times> app_state" where
  "loadPyodide w s =
     (let s1 = s\<lparr>calls := calls s @ [LoadPyodide]\<rparr>
      in case faults w LoadPyodide of
           Some e \<Rightarrow> (Inl e, s1)
         | None \<Rightarrow> (Inr \<lparr>rid = fresh_rid w, completed = [], FS = Map.empty\<rparr>, s1))"

text \<open>Any later provisioning call, made on the runtime held in \<open>pyodide\<close>.\<close>

definition runtime_call :: "world \<Rightarrow> step \<Rightarrow> app_state \<Rightarrow> js_error option \<times> app_state" where
  "runtime_call w st s =
     (let s1 = s\<lparr>calls := calls s @ [st]\<rparr>
      in case faults w st of
           Some e \<Rightarrow> (Some e, s1)
         | None \<Rightarrow>
             (None, s1\<lparr>pyodide :=
                map_option (\<lambda>r. r\<lparr>completed := completed r @ [st]\<rparr>) (pyodide s1)\<rparr>))"

text \<open>Sequencing inside a \<^verbatim>\<open>try\<close> block: the first thrown error ends the block.\<close>

definition and_then ::
  "js_error option \<times> app_state \<Rightarrow> (app_state \<Rightarrow> js_error option \<times> app_state)
   \<Rightarrow> js_error option \<times> app_state" where
  "and_then r f = (case r of (Some e, s) \<Rightarrow> (Some e, s) | (None, s) \<Rightarrow> f s)"

text \<open>\<^verbatim>\<open>try { ... } catch(e) { console.warn(msg, e) }\<close>\<close>

definition warn_and_continue ::
  "string \<Rightarrow> js_error option \<times> app_state \<Rightarrow> js_error option \<times> app_state" where
  "warn_and_continue msg r =
     (case r of
        (Some e, s) \<Rightarrow> (None, s\<lparr>console := console s @ [msg]\<rparr>)
      | (None, s) \<Rightarrow> (None, s))"

text \<open>
  The body of the \<^verbatim>\<open>try\<close> block. The module variable is assigned as soon as
  \<^verbatim>\<open>loadPyodide()\<close> resolves (\<^verbatim>\<open>pyodide = await loadPyodide()\<close>), before the
  packages are loaded; the block ends with \<^verbatim>\<open>return pyodide\<close>.
\<close>

definition provision :: "world \<Rightarrow> app_state \<Rightarrow> (js_error + nat) \<times> app_state" where
  "provision w s =
     (case loadPyodide w s of
        (Inl e, s1) \<Rightarrow> (Inl e, s1)
      | (Inr r, s1) \<Rightarrow>
          (case
             and_then (runtime_call w LoadMicropip (s1\<lparr>pyodide := Some r\<rparr>)) (\<lambda>s.
             and_then (runtime_call w ImportMicropip s) (\<lambda>s.
             and_then (runtime_call w InstallMocks s) (\<lambda>s.
             and_then (runtime_call w LoadPackages s) (\<lambda>s.
             and_then (warn_and_continue ''Failed to install some optional deps''
                         (runtime_call w InstallOptionalDeps s)) (\<lambda>s.
             and_then (runtime_call w InstallMarkitdown s) (\<lambda>s.
             runtime_call w RegisterWrapper s))))))
           of
             (Some e, s2) \<Rightarrow> (Inl e, s2)
           | (None, s2) \<Rightarrow> (Inr (rid r), s2)))"

text \<open>
  \<^verbatim>\<open>
  const loadPyodideEnvironment = async () => {
    if (pyodide) return pyodide
    isDownloadingModel.value = true
    try { ... return pyodide }
    catch (e: any) {
      console.error("Failed to load Pyodide or MarkItDown", e)
      throw new Error(`Failed to initialize Python environment: ${e.message}`)
    } finally { isDownloadingModel.value = false }
  }
  \<close>
  The result is the handle of the runtime (its identity), or the error thrown.
\<close>

definition loadPyodideEnvironment :: "world \<Rightarrow> app_state \<Rightarrow> (js_error + nat) \<times> app_state" where
  "loadPyodideEnvironment w s =
     (case pyodide s of
        Some r \<Rightarrow> (Inr (rid r), s)
      | None \<Rightarrow>
          (case provision w (s\<lparr>isDownloadingModel := True\<rparr>) of
             (Inr h, s1) \<Rightarrow> (Inr h, s1\<lparr>isDownloadingModel := False\<rparr>)
           | (Inl e, s1) \<Rightarrow>
               (Inl (JsError ''Error'' (''Failed to initialize Python environment: '' @ message e)),
                s1\<lparr>console := console s1 @ [''Failed to load Pyodide or MarkItDown''],
                   isDownloadingModel := False\<rparr>)))"

text \<open>The provisioning calls of a first-time construction, each once, in order.\<close>

definition construction_steps :: "step list" where
  "construction_steps =
     [LoadPyodide, LoadMicropip, ImportMicropip, InstallMocks,
      LoadPackages, InstallOptionalDeps, InstallMarkitdown, RegisterWrapper]"

text \<open>Calling the provisioner once per element of a list of worlds, one call after the other.\<close>

fun ensureReady_calls :: "world list \<Rightarrow> app_state \<Rightarrow> (js_error + nat) list \<times> app_state" where
  "ensureReady_calls [] s = ([], s)"
| "ensureReady_calls (w # ws) s =
     (case loadPyodideEnvironment w s of
        (r, s1) \<Rightarrow> (case ensureReady_calls ws s1 of (rs, s2) \<Rightarrow> (r # rs, s2)))"

text \<open>The state of a freshly loaded page.\<close>

definition initial_state :: app_state where
  "initial_state =
     \<lparr>file_ref = None, isProcessing = False, isDownloadingModel = False, resultText = [],
      resultFilename = [], pyodide = None, calls = [], console = [], alerts = []\<rparr>"

section \<open>Conversion invoker, browser shape (App.vue, startConversion)\<close>

text \<open>
  The result of calling the Python wrapper \<^verbatim>\<open>convert_file(path)\<close>: it raises, or it
  returns the converter's \<^verbatim>\<open>text_content\<close>, which may be absent (Python \<^verbatim>\<open>None\<close>).
  The converter itself is the external library: a function of the path and of the
  filesystem it reads.
\<close>

datatype py_result = Raises js_error | Returns "string option"

type_synonym converter = "string \<Rightarrow> filesystem \<Rightarrow> py_result"

text \<open>\<^verbatim>\<open>const tempPath = '/tmp/' + filename\<close>\<close>

definition tempPath :: "string \<Rightarrow> string" where
  "tempPath filename = ''/tmp/'' @ filename"

text \<open>\<^verbatim>\<open>py.FS.writeFile(path, data)\<close> and \<^verbatim>\<open>py.FS.unlink(path)\<close>; unlinking a missing path throws.\<close>

definition FS_writeFile :: "string \<Rightarrow> bytes \<Rightarrow> runtime \<Rightarrow> runtime" where
  "FS_writeFile path data r = r\<lparr>FS := (FS r)(path \<mapsto> data)\<rparr>"

definition FS_unlink :: "string \<Rightarrow> runtime \<Rightarrow> js_error + runtime" where
  "FS_unlink path r =
     (if FS r path \<noteq> None then Inr (r\<lparr>FS := (FS r)(path := None)\<rparr>)
      else Inl (JsError ''ErrnoError'' ''FS error''))"

text \<open>
  \<^verbatim>\<open>py.globals.get('convert_file')(tempPath)\<close>: the wrapper exists only once the last
  provisioning call has completed; calling the missing global is a \<^verbatim>\<open>TypeError\<close>.
\<close>

definition call_convert_file :: "converter \<Rightarrow> runtime \<Rightarrow> string \<Rightarrow> py_result" where
  "call_convert_file conv r path =
     (if RegisterWrapper \<in> set (completed r) then conv path (FS r)
      else Raises (JsError ''TypeError'' ''convertFunc is not a function''))"

text \<open>\<^verbatim>\<open>error.message || error\<close> inside the alert's template string.\<close>

definition describe :: "js_error \<Rightarrow> string" where
  "describe e = (if message e \<noteq> [] then message e else err_name e)"

text \<open>
  The body of the \<^verbatim>\<open>try\<close> block of \<^verbatim>\<open>startConversion\<close>. \<^verbatim>\<open>py\<close> is the object the
  module variable \<^verbatim>\<open>pyodide\<close> holds, so what is written to \<^verbatim>\<open>py.FS\<close> is written
  to the runtime in the state.
  \<^verbatim>\<open>
    const py = await loadPyodideEnvironment()
    const arrayBuffer = await file.value.arrayBuffer()
    const filename = file.value.name
    const tempPath = '/tmp/' + filename
    py.FS.writeFile(tempPath, new Uint8Array(arrayBuffer))
    const convertFunc = py.globals.get('convert_file')
    const markdown = convertFunc(tempPath)
    try { py.FS.unlink(tempPath) } catch(e) {}
    if (markdown) {
       resultText.value = markdown
       ... resultFilename.value = nameParts.join('.') + '.md'
    } else {
       throw new Error("Conversion returned empty result")
    }
  \<close>
\<close>

definition conversion_try ::
  "world \<Rightarrow> converter \<Rightarrow> js_file \<Rightarrow> app_state \<Rightarrow> js_error option \<times> app_state" where
  "conversion_try w conv f s =
     (case loadPyodideEnvironment w s of
        (Inl e, s1) \<Rightarrow> (Some e, s1)
      | (Inr py, s1) \<Rightarrow>
          (case pyodide s1 of
             None \<Rightarrow> (Some (JsError ''TypeError'' ''Cannot read properties of null''), s1)
           | Some r \<Rightarrow>
               (let filename = name f;
                    r1 = FS_writeFile (tempPath filename) (content f) r;
                    s2 = s1\<lparr>pyodide := Some r1\<rparr>
                in case call_convert_file conv r1 (tempPath filename) of
                     Raises e \<Rightarrow> (Some e, s2)
                   | Returns markdown \<Rightarrow>
                       (let r2 = (case FS_unlink (tempPath filename) r1 of
                                    Inl e \<Rightarrow> r1
                                  | Inr r' \<Rightarrow> r');
                            s3 = s2\<lparr>pyodide := Some r2\<rparr>
                        in case markdown of
                             Some text \<Rightarrow>
                               (if text \<noteq> []
                                then (None, s3\<lparr>resultText := text,
                                               resultFilename := suggestedFilename (name f)\<rparr>)
                                else (Some (JsError ''Error'' ''Conversion returned empty result''), s3))
                           | None \<Rightarrow>
                               (Some (JsError ''Error'' ''Conversion returned empty result''), s3)))))"

text \<open>
  \<^verbatim>\<open>
  const startConversion = async () => {
    if (!file.value) return
    isProcessing.value = true
    resultText.value = ''
    try { ... }
    catch (error: any) {
      console.error(error)
      alert(`Conversion Failed: ${error.message || error}`)
    } finally { isProcessing.value = false }
  }
  \<close>
\<close>

definition startConversion :: "world \<Rightarrow> converter \<Rightarrow> app_state \<Rightarrow> app_state" where
  "startConversion w conv s =
     (case file_ref s of
        None \<Rightarrow> s
      | Some f \<Rightarrow>
          (case conversion_try w conv f (s\<lparr>isProcessing := True, resultText := []\<rparr>) of
             (None, s1) \<Rightarrow> s1\<lparr>isProcessing := False\<rparr>
           | (Some e, s1) \<Rightarrow>
               s1\<lparr>console := console s1 @ [describe e],
                  alerts := alerts s1 @ [''Conversion Failed: '' @ describe e],
                  isProcessing := False\<rparr>))"

text \<open>The files a runtime holds, if there is a runtime.\<close>

definition staged_files :: "app_state \<Rightarrow> string set" where
  "staged_files s = (case pyodide s of None \<Rightarrow> {} | Some r \<Rightarrow> dom (FS r))"

text \<open>
  The filesystem a conversion stages its file into: that of the cached runtime, or the
  empty one of the runtime a first-time construction creates.
\<close>

definition runtime_files :: "app_state \<Rightarrow> filesystem" where
  "runtime_files s = (case pyodide s of None \<Rightarrow> Map.empty | Some r \<Rightarrow> FS r)"

section \<open>Request handler, server shape (the \<^verbatim>\<open>/api/markitdown\<close> event handler)\<close>

text \<open>
  One entry of \<^verbatim>\<open>files.file\<close> as the upload parser returns it, the options passed
  to the parser, the object \<^verbatim>\<open>markitdown.convert\<close> resolves to, and the outcome of
  that call: it throws, or resolves to a result object or to nothing.
\<close>

record uploaded_file =
  filepath :: "string option"
  originalFilename :: "string option"

record read_options =
  maxFileSize :: nat
  includeFields :: bool

datatype document_result = DocumentResult (result_textContent: string)

datatype convert_outcome = Throws js_error | Resolves "document_result option"

text \<open>
  The external library's \<^verbatim>\<open>convert(filePath, { fileExtension })\<close>, reading the server's
  disk, and the upload parser \<^verbatim>\<open>readFiles(event, options)\<close>, which stores the uploaded
  parts on the disk and returns them or throws.
\<close>

type_synonym server_converter = "string \<Rightarrow> string option \<Rightarrow> filesystem \<Rightarrow> convert_outcome"

type_synonym 'ev upload_parser =
  "'ev \<Rightarrow> read_options \<Rightarrow> filesystem \<Rightarrow> (js_error + uploaded_file list) \<times> filesystem"

text \<open>
  What the handler throws: an error of the upload parser passed on unchanged, or an
  error made by \<^verbatim>\<open>createError({ statusCode, statusMessage })\<close>. What it returns on
  success is the object \<^verbatim>\<open>{ success, textContent, filename }\<close>.
\<close>

datatype thrown = Rethrown js_error | H3Error (statusCode: nat) (statusMessage: string)

record payload =
  success :: bool
  textContent :: string
  filename :: "string option"

text \<open>\<^verbatim>\<open>{ maxFileSize: 100 * 1024 * 1024, includeFields: true }\<close>\<close>

definition upload_options :: read_options where
  "upload_options = \<lparr>maxFileSize = 100 * 1024 * 1024, includeFields = True\<rparr>"

text \<open>
  \<^verbatim>\<open>originalFilename ? ('.' + originalFilename.split('.').pop()) : undefined\<close>
\<close>

definition fileExtension :: "string option \<Rightarrow> string option" where
  "fileExtension original =
     (case original of
        None \<Rightarrow> None
      | Some n \<Rightarrow>
          (if n = [] then None
           else Some (''.'' @ (case pop (split_on CHR ''.'' n) of
                                 None \<Rightarrow> ''undefined''
                               | Some seg \<Rightarrow> seg))))"

text \<open>
  The \<^verbatim>\<open>try\<close> block: convert, and throw a 500 error when there is no result object.
  An error made by \<^verbatim>\<open>createError\<close> has its \<^verbatim>\<open>statusMessage\<close> as its message.
\<close>

definition convert_try ::
  "server_converter \<Rightarrow> uploaded_file \<Rightarrow> string \<Rightarrow> filesystem \<Rightarrow> js_error + payload" where
  "convert_try convert uploadedFile filePath disk =
     (case convert filePath (fileExtension (originalFilename uploadedFile)) disk of
        Throws e \<Rightarrow> Inl e
      | Resolves None \<Rightarrow> Inl (JsError ''H3Error'' ''Conversion returned empty result'')
      | Resolves (Some result) \<Rightarrow>
          Inr \<lparr>success = True, textContent = result_textContent result,
               filename = originalFilename uploadedFile\<rparr>)"

text \<open>
  The \<^verbatim>\<open>finally\<close> block: \<^verbatim>\<open>fs.existsSync(filePath)\<close> is tested and nothing is done
  (the call \<^verbatim>\<open>fs.unlinkSync(filePath)\<close> is commented out in the source).
\<close>

definition cleanup_finally :: "string \<Rightarrow> filesystem \<Rightarrow> filesystem" where
  "cleanup_finally filePath disk = (if disk filePath \<noteq> None then disk else disk)"

text \<open>
  The event handler: parse the upload, reject a request with no file part or no path,
  convert inside \<^verbatim>\<open>try\<close>/\<^verbatim>\<open>catch\<close>/\<^verbatim>\<open>finally\<close>. Its result is what it throws or
  returns, and the disk afterwards.
\<close>

definition eventHandler ::
  "'ev upload_parser \<Rightarrow> server_converter \<Rightarrow> 'ev \<Rightarrow> filesystem
   \<Rightarrow> (thrown + payload) \<times> filesystem" where
  "eventHandler readFiles convert event disk =
     (case readFiles event upload_options disk of
        (Inl e, disk1) \<Rightarrow> (Inl (Rethrown e), disk1)
      | (Inr files, disk1) \<Rightarrow>
          (case files of
             [] \<Rightarrow> (Inl (H3Error 400 ''No file uploaded''), disk1)
           | uploadedFile # others \<Rightarrow>
               (case filepath uploadedFile of
                  None \<Rightarrow> (Inl (H3Error 500 ''File upload failed, no path''), disk1)
                | Some filePath \<Rightarrow>
                    (if filePath = []
                     then (Inl (H3Error 500 ''File upload failed, no path''), disk1)
                     else
                       (case convert_try convert uploadedFile filePath disk1 of
                          Inr response \<Rightarrow> (Inr response, cleanup_finally filePath disk1)
                        | Inl error \<Rightarrow>
                            (Inl (H3Error 500 (''Conversion failed: '' @ message error)),
                             cleanup_finally filePath disk1))))))"

text \<open>
  The status of the HTTP response the framework sends: 200 for a returned object, the
  \<^verbatim>\<open>statusCode\<close> of a thrown \<^verbatim>\<open>createError\<close> error; for an error of the upload parser
  the handler sets none.
\<close>

definition response_status :: "thrown + payload \<Rightarrow> nat option" where
  "response_status r =
     (case r of
        Inr p \<Rightarrow> Some 200
      | Inl (H3Error code msg) \<Rightarrow> Some code
      | Inl (Rethrown e) \<Rightarrow> None)"

section \<open>Size formatting (formatSize, in both pages)\<close>

text \<open>
  \<^verbatim>\<open>
  const formatSize = (bytes: number) => {
    if (bytes === 0) return '0 B'
    const k = 1024
    const sizes = ['B', 'KB', 'MB', 'GB']
    const i = Math.floor(Math.log(bytes) / Math.log(k))
    return parseFloat((bytes / Math.pow(k, i)).toFixed(2)) + ' ' + sizes[i]
  }
  \<close>
  The argument is a byte count, an integer. The numbers the function computes are
  rationals or \<^verbatim>\<open>NaN\<close>.
\<close>

datatype jsnum = NaN | Num rat

text \<open>
  The integer logarithm: the largest \<open>e\<close> with \<open>k ^ e \<le> n\<close>, for \<open>k \<ge> 2\<close> and
  \<open>n \<ge> 1\<close>.
\<close>

function floor_log :: "nat \<Rightarrow> nat \<Rightarrow> nat" where
  "floor_log k n = (if k < 2 \<or> n < k then 0 else Suc (floor_log k (n div k)))"
  by pat_completeness auto
termination
  by (relation "measure snd") auto

declare floor_log.simps [simp del]

text \<open>
  \<^verbatim>\<open>Math.floor(Math.log(bytes) / Math.log(k))\<close>. The logarithm of a negative number is
  \<^verbatim>\<open>NaN\<close>, and so are its quotient and floor. For a positive byte count the value is
  the floor of the quotient of the logarithms, computed here exactly
  (\<open>Math_floor_log_ratio_exact\<close> below); the source computes it in double precision.
  The function is not called with 0.
\<close>

definition Math_floor_log_ratio :: "int \<Rightarrow> nat \<Rightarrow> jsnum" where
  "Math_floor_log_ratio bytes k =
     (if bytes > 0 then Num (of_nat (floor_log k (nat bytes))) else NaN)"

text \<open>\<^verbatim>\<open>Math.pow(k, i)\<close> for an exponent that is a natural number or \<^verbatim>\<open>NaN\<close>.\<close>

definition Math_pow :: "nat \<Rightarrow> jsnum \<Rightarrow> jsnum" where
  "Math_pow k i = (case i of NaN \<Rightarrow> NaN | Num e \<Rightarrow> Num (of_nat k ^ nat \<lfloor>e\<rfloor>))"

text \<open>\<^verbatim>\<open>bytes / d\<close>\<close>

definition js_div :: "int \<Rightarrow> jsnum \<Rightarrow> jsnum" where
  "js_div bytes d = (case d of NaN \<Rightarrow> NaN | Num p \<Rightarrow> Num (of_int bytes / p))"

text \<open>
  \<^verbatim>\<open>parseFloat(x.toFixed(2))\<close>: \<^verbatim>\<open>toFixed(2)\<close> rounds to the nearest multiple of 1/100,
  the larger one on a tie, and \<^verbatim>\<open>parseFloat\<close> reads the digits back.
\<close>

definition toFixed2_parseFloat :: "jsnum \<Rightarrow> jsnum" where
  "toFixed2_parseFloat x =
     (case x of NaN \<Rightarrow> NaN | Num q \<Rightarrow> Num (of_int \<lfloor>q * 100 + 1 / 2\<rfloor> / 100))"

definition digit_char :: "nat \<Rightarrow> char" where
  "digit_char d = ''0123456789'' ! d"

function show_nat :: "nat \<Rightarrow> string" where
  "show_nat n =
     (if n < 10 then [digit_char n] else show_nat (n div 10) @ [digit_char (n mod 10)])"
  by pat_completeness auto
termination
  by (relation "measure id") auto

declare show_nat.simps [simp del]

text \<open>
  The string of a number in a concatenation, for \<^verbatim>\<open>NaN\<close> and for a non-negative
  multiple of 1/100: the integer part, then the fraction digits without trailing zeros.
\<close>

definition numberToString :: "jsnum \<Rightarrow> string" where
  "numberToString x =
     (case x of
        NaN \<Rightarrow> ''NaN''
      | Num q \<Rightarrow>
          (let n = nat \<lfloor>q * 100\<rfloor>; f = n mod 100
           in show_nat (n div 100)
              @ (if f = 0 then []
                 else ''.'' @ [digit_char (f div 10)]
                      @ (if f mod 10 = 0 then [] else [digit_char (f mod 10)]))))"

text \<open>
  \<^verbatim>\<open>xs[i]\<close>: the element at an index inside the array, \<^verbatim>\<open>undefined\<close> for any other
  number; and the string an element or \<^verbatim>\<open>undefined\<close> contributes to a concatenation.
\<close>

definition element_at :: "string list \<Rightarrow> jsnum \<Rightarrow> string option" where
  "element_at xs i =
     (case i of
        NaN \<Rightarrow> None
      | Num e \<Rightarrow>
          (if 0 \<le> e \<and> e < of_nat (length xs) \<and> of_int \<lfloor>e\<rfloor> = e
           then Some (xs ! nat \<lfloor>e\<rfloor>) else None))"

definition string_of_element :: "string option \<Rightarrow> string" where
  "string_of_element v = (case v of None \<Rightarrow> ''undefined'' | Some s \<Rightarrow> s)"

definition sizes :: "string list" where
  "sizes = [''B'', ''KB'', ''MB'', ''GB'']"

definition formatSize :: "int \<Rightarrow> string" where
  "formatSize bytes =
     (if bytes = 0 then ''0 B''
      else
        (let k = 1024;
             i = Math_floor_log_ratio bytes k
         in numberToString (toFixed2_parseFloat (js_div bytes (Math_pow k i)))
            @ '' '' @ string_of_element (element_at sizes i)))"

text \<open>
  A well-formed size string is a decimal number (digits, optionally a point and more
  digits), one space, and one of the four units.
\<close>

definition is_digit :: "char \<Rightarrow> bool" where
  "is_digit c = (c \<in> set ''0123456789'')"

definition is_number :: "string \<Rightarrow> bool" where
  "is_number s =
     (case split_on CHR ''.'' s of
        [ip] \<Rightarrow> ip \<noteq> [] \<and> list_all is_digit ip
      | [ip, fp] \<Rightarrow> ip \<noteq> [] \<and> list_all is_digit ip \<and> fp \<noteq> [] \<and> list_all is_digit fp
      | _ \<Rightarrow> False)"

definition well_formed_size :: "string \<Rightarrow> bool" where
  "well_formed_size s =
     (case split_on CHR '' '' s of
        [num, unit] \<Rightarrow> is_number num \<and> unit \<in> set sizes
      | _ \<Rightarrow> False)"

section \<open>Facts about splitting and joining\<close>

lemma split_on_nonempty: "split_on c s \<noteq> []"
  by (induction s) (auto split: list.splits)

lemma split_on_no_sep: "c \<notin> set s \<Longrightarrow> split_on c s = [s]"
  by (induction s) auto

lemma split_on_append_sep: "split_on c (a @ c # b) = split_on c a @ split_on c b"
proof (induction a)
  case Nil
  show ?case by simp
next
  case (Cons x a)
  obtain y ys where ys: "split_on c a = y # ys"
    using split_on_nonempty [of c a] by (cases "split_on c a") auto
  show ?case
    using Cons ys by simp
qed

lemma join_split_on: "join_with [c] (split_on c s) = s"
proof (induction s)
  case Nil
  show ?case by simp
next
  case (Cons x s)
  obtain y ys where ys: "split_on c s = y # ys"
    using split_on_nonempty [of c s] by (cases "split_on c s") auto
  show ?case
  proof (cases "x = c")
    case True
    with Cons ys show ?thesis by simp
  next
    case False
    with Cons ys show ?thesis by (cases ys) auto
  qed
qed

lemma suggestedFilename_ext:
  assumes "CHR ''.'' \<notin> set ext"
  shows "suggestedFilename (stem @ ''.'' @ ext) = stem @ ''.md''"
proof -
  have parts: "split_on CHR ''.'' (stem @ ''.'' @ ext) = split_on CHR ''.'' stem @ [ext]"
    using assms by (simp add: split_on_append_sep split_on_no_sep)
  have len: "length (split_on CHR ''.'' stem @ [ext]) > 1"
    using split_on_nonempty [of "CHR ''.''" stem] by (cases "split_on CHR ''.'' stem") auto
  have "join_with ''.'' (split_on CHR ''.'' stem) = stem"
    by (rule join_split_on)
  then show ?thesis
    unfolding suggestedFilename_def parts Let_def using len by simp
qed

lemma suggestedFilename_no_ext:
  assumes "CHR ''.'' \<notin> set fname"
  shows "suggestedFilename fname = fname @ ''.md''"
  using assms by (simp add: suggestedFilename_def split_on_no_sep)

lemma split_on_last_segment:
  assumes "c \<in> set s"
  shows "pop (split_on c (p @ s)) = pop (split_on c s)"
proof -
  from assms obtain a b where s: "s = a @ c # b" and b: "c \<notin> set b"
    by (auto dest: split_list_last)
  have "split_on c (p @ s) = split_on c (p @ a) @ [b]"
    using split_on_append_sep [of c "p @ a" b] s b by (simp add: split_on_no_sep)
  moreover have "split_on c s = split_on c a @ [b]"
    using split_on_append_sep [of c a b] s b by (simp add: split_on_no_sep)
  ultimately show ?thesis by (simp add: pop_def)
qed

section \<open>Facts about the environment provisioner\<close>

lemma loadPyodideEnvironment_cached:
  "pyodide s = Some r \<Longrightarrow> loadPyodideEnvironment w s = (Inr (rid r), s)"
  by (simp add: loadPyodideEnvironment_def)

lemma provision_success:
  assumes "provision w s = (Inr h, s1)"
  shows "calls s1 = calls s @ construction_steps
    \<and> (\<exists>r. pyodide s1 = Some r \<and> rid r = h \<and> RegisterWrapper \<in> set (completed r)
           \<and> FS r = Map.empty)"
  using assms
  by (auto simp: provision_def loadPyodide_def runtime_call_def and_then_def warn_and_continue_def construction_steps_def Let_def split: option.splits sum.splits prod.splits)


lemma ensureReady_calls_cached:
  "pyodide s = Some r \<Longrightarrow> ensureReady_calls ws s = (replicate (length ws) (Inr (rid r)), s)"
  by (induction ws) (simp_all add: loadPyodideEnvironment_cached)

lemma loadPyodideEnvironment_success:
  assumes "pyodide s = None" and "loadPyodideEnvironment w s = (Inr h, s1)"
  shows "calls s1 = calls s @ construction_steps"
    and "\<exists>r. pyodide s1 = Some r \<and> rid r = h \<and> RegisterWrapper \<in> set (completed r)
           \<and> FS r = Map.empty"
proof -
  obtain res s' where p: "provision w (s\<lparr>isDownloadingModel := True\<rparr>) = (res, s')"
    by (cases "provision w (s\<lparr>isDownloadingModel := True\<rparr>)")
  from assms p have res: "res = Inr h" and s1: "s1 = s'\<lparr>isDownloadingModel := False\<rparr>"
    by (auto simp: loadPyodideEnvironment_def split: sum.splits)
  from provision_success [of w "s\<lparr>isDownloadingModel := True\<rparr>" h s'] p res
  have "calls s' = calls s @ construction_steps"
    and "\<exists>r. pyodide s' = Some r \<and> rid r = h \<and> RegisterWrapper \<in> set (completed r)
           \<and> FS r = Map.empty"
    by auto
  then show "calls s1 = calls s @ construction_steps"
    and "\<exists>r. pyodide s1 = Some r \<and> rid r = h \<and> RegisterWrapper \<in> set (completed r)
           \<and> FS r = Map.empty"
    using s1 by auto
qed

section \<open>Facts about the conversion invoker and the request handler\<close>

lemma loadPyodideEnvironment_failure:
  assumes "pyodide s = None" and "loadPyodideEnvironment w s = (Inl e, s1)"
  shows "staged_files s1 = {}"
  using assms
  by (auto simp: loadPyodideEnvironment_def provision_def loadPyodide_def runtime_call_def
      and_then_def warn_and_continue_def staged_files_def Let_def
      split: option.splits sum.splits prod.splits)

lemma conversion_try_removes:
  assumes ready: "pyodide s = None \<or> (\<exists>r. pyodide s = Some r \<and> RegisterWrapper \<in> set (completed r))"
    and returns: "\<forall>e. conv (tempPath (name f))
                    ((runtime_files s)(tempPath (name f) \<mapsto> content f)) \<noteq> Raises e"
  shows "tempPath (name f) \<notin> staged_files (snd (conversion_try w conv f s))"
proof (cases "loadPyodideEnvironment w s")
  case (Pair res s1)
  show ?thesis
  proof (cases res)
    case (Inl e)
    with Pair ready have "pyodide s = None"
      by (auto simp: loadPyodideEnvironment_def)
    from loadPyodideEnvironment_failure [OF this] Pair Inl have "staged_files s1 = {}"
      by simp
    with Pair Inl show ?thesis by (simp add: conversion_try_def)
  next
    case (Inr h)
    from ready obtain r where r: "pyodide s1 = Some r" "RegisterWrapper \<in> set (completed r)"
      "FS r = runtime_files s"
    proof
      assume none: "pyodide s = None"
      from loadPyodideEnvironment_success(2) [OF this, of w h s1] Pair Inr
      have "\<exists>r. pyodide s1 = Some r \<and> RegisterWrapper \<in> set (completed r)
              \<and> FS r = Map.empty"
        by auto
      with none that show ?thesis
        by (auto simp: runtime_files_def)
    next
      assume "\<exists>r. pyodide s = Some r \<and> RegisterWrapper \<in> set (completed r)"
      then obtain r where "pyodide s = Some r" "RegisterWrapper \<in> set (completed r)" by auto
      with Pair that show ?thesis
        by (auto simp: loadPyodideEnvironment_def runtime_files_def)
    qed
    let ?p = "tempPath (name f)"
    obtain m where m: "conv ?p ((FS r)(?p \<mapsto> content f)) = Returns m"
      using returns r(3) by (cases "conv ?p ((FS r)(?p \<mapsto> content f))") auto
    show ?thesis
      using Pair Inr r(1,2) m
      by (auto simp: conversion_try_def call_convert_file_def FS_writeFile_def FS_unlink_def
          staged_files_def Let_def split: option.splits)
  qed
qed

lemma staged_files_upd [simp]:
  "staged_files (s\<lparr>isProcessing := b\<rparr>) = staged_files s"
  "staged_files (s\<lparr>console := c\<rparr>) = staged_files s"
  "staged_files (s\<lparr>alerts := a\<rparr>) = staged_files s"
  "staged_files (s\<lparr>resultText := t\<rparr>) = staged_files s"
  by (simp_all add: staged_files_def)

lemma runtime_files_upd [simp]:
  "runtime_files (s\<lparr>isProcessing := b\<rparr>) = runtime_files s"
  "runtime_files (s\<lparr>resultText := t\<rparr>) = runtime_files s"
  by (simp_all add: runtime_files_def)

lemma eventHandler_disk:
  "snd (eventHandler readFiles convert event disk) = snd (readFiles event upload_options disk)"
  by (auto simp: eventHandler_def cleanup_finally_def split: prod.splits sum.splits list.splits option.splits)

text \<open>
  When the converter raises, the browser shape skips the \<^verbatim>\<open>unlink\<close>: the staged file
  is still in the runtime's filesystem when \<^verbatim>\<open>startConversion\<close> returns.
\<close>

lemma startConversion_raise_leaves_file:
  "staged_files
     (startConversion \<lparr>fresh_rid = 1, faults = Map.empty\<rparr>
        (\<lambda>p fs. Raises (JsError ''PythonError'' ''unsupported format''))
        (initial_state\<lparr>file_ref := Some \<lparr>name = ''a.pdf'', content = [1, 2]\<rparr>\<rparr>))
   = {''/tmp/a.pdf''}"
  by (simp add: startConversion_def conversion_try_def loadPyodideEnvironment_def provision_def
      loadPyodide_def runtime_call_def and_then_def warn_and_continue_def initial_state_def
      call_convert_file_def FS_writeFile_def tempPath_def staged_files_def)

section \<open>Facts about size formatting\<close>

lemma floor_log_bounds:
  "2 \<le> k \<Longrightarrow> 0 < n \<Longrightarrow> k ^ floor_log k n \<le> n \<and> n < k ^ Suc (floor_log k n)"
proof (induction k n rule: floor_log.induct)
  case (1 k n)
  show ?case
  proof (cases "n < k")
    case True
    with 1 show ?thesis by (simp add: floor_log.simps)
  next
    case False
    with 1 have pos: "0 < n div k" by (simp add: div_greater_zero_iff)
    from 1 False pos
    have IH: "k ^ floor_log k (n div k) \<le> n div k \<and> n div k < k ^ Suc (floor_log k (n div k))"
      by simp
    have fl: "floor_log k n = Suc (floor_log k (n div k))"
      using False 1(2) by (subst floor_log.simps) simp
    have lower: "k ^ Suc (floor_log k (n div k)) \<le> n"
    proof -
      have "k * k ^ floor_log k (n div k) \<le> k * (n div k)" using IH by simp
      also have "\<dots> \<le> n" by simp
      finally show ?thesis by simp
    qed
    have upper: "n < k ^ Suc (Suc (floor_log k (n div k)))"
    proof -
      have "n div k + 1 \<le> k ^ Suc (floor_log k (n div k))" using IH by simp
      then have "k * (n div k + 1) \<le> k * k ^ Suc (floor_log k (n div k))"
        by (rule mult_le_mono2)
      moreover have "n < k * (n div k + 1)"
        using dividend_less_times_div [of k n] 1(2) by simp
      ultimately show ?thesis by simp
    qed
    show ?thesis using lower upper fl by simp
  qed
qed

lemma Math_floor_log_ratio_exact:
  assumes "0 < bytes"
  shows "Math_floor_log_ratio bytes 1024
           = Num (of_int \<lfloor>ln (real_of_int bytes) / ln (real 1024)\<rfloor>)"
proof -
  have "\<lfloor>log (real 1024) (real (nat bytes))\<rfloor> = int (floor_log 1024 (nat bytes))"
    using floor_log_bounds [of 1024 "nat bytes"] assms by (intro floor_log_nat_eq_if) auto
  then show ?thesis
    using assms by (simp add: log_def Math_floor_log_ratio_def)
qed

lemma digit_char_is_digit: "d < 10 \<Longrightarrow> is_digit (digit_char d)"
  by (auto simp: numeral_eq_Suc less_Suc_eq digit_char_def is_digit_def)

lemma show_nat_digits: "show_nat n \<noteq> [] \<and> list_all is_digit (show_nat n)"
proof (induction n rule: show_nat.induct)
  case (1 n)
  show ?case
  proof (cases "n < 10")
    case True
    then show ?thesis
      by (subst (1 2) show_nat.simps) (simp add: digit_char_is_digit)
  next
    case False
    with 1 show ?thesis
      by (subst (1 2) show_nat.simps) (simp add: digit_char_is_digit)
  qed
qed


lemma is_digit_not_sep_char: "is_digit c \<Longrightarrow> c \<noteq> CHR ''.'' \<and> c \<noteq> CHR '' ''"
  by (auto simp: is_digit_def)

lemma is_digit_not_sep: "list_all is_digit s \<Longrightarrow> CHR ''.'' \<notin> set s \<and> CHR '' '' \<notin> set s"
  using is_digit_not_sep_char unfolding list_all_iff by blast

lemma numberToString_shape:
  "\<exists>ip fr. numberToString (Num q) = ip @ fr \<and> ip \<noteq> [] \<and> list_all is_digit ip
     \<and> (fr = [] \<or> (\<exists>fp. fr = CHR ''.'' # fp \<and> fp \<noteq> [] \<and> list_all is_digit fp))"
proof -
  define n where "n = nat \<lfloor>q * 100\<rfloor>"
  define fr where "fr =
    (if n mod 100 = 0 then []
     else ''.'' @ [digit_char (n mod 100 div 10)]
          @ (if n mod 100 mod 10 = 0 then [] else [digit_char (n mod 100 mod 10)]))"
  have d1: "is_digit (digit_char (n mod 100 div 10))"
    by (rule digit_char_is_digit) (simp add: less_mult_imp_div_less)
  have d2: "is_digit (digit_char (n mod 100 mod 10))"
    by (rule digit_char_is_digit) simp
  have s: "numberToString (Num q) = show_nat (n div 100) @ fr"
    by (simp add: numberToString_def Let_def n_def fr_def)
  have fr: "fr = [] \<or> (\<exists>fp. fr = CHR ''.'' # fp \<and> fp \<noteq> [] \<and> list_all is_digit fp)"
    using d1 d2 by (simp add: fr_def)
  from s fr show_nat_digits [of "n div 100"] show ?thesis
    by blast
qed

lemma is_number_numberToString: "is_number (numberToString (Num q))"
proof -
  from numberToString_shape [of q] obtain ip fr where
    s: "numberToString (Num q) = ip @ fr" and ip: "ip \<noteq> []" "list_all is_digit ip"
    and fr: "fr = [] \<or> (\<exists>fp. fr = CHR ''.'' # fp \<and> fp \<noteq> [] \<and> list_all is_digit fp)"
    by blast
  from fr show ?thesis
  proof
    assume "fr = []"
    with s ip show ?thesis
      by (simp add: is_number_def split_on_no_sep is_digit_not_sep)
  next
    assume "\<exists>fp. fr = CHR ''.'' # fp \<and> fp \<noteq> [] \<and> list_all is_digit fp"
    then obtain fp where fp: "fr = CHR ''.'' # fp" "fp \<noteq> []" "list_all is_digit fp"
      by blast
    have "split_on CHR ''.'' (ip @ CHR ''.'' # fp) = [ip, fp]"
      using ip fp by (simp add: split_on_append_sep split_on_no_sep is_digit_not_sep)
    with s ip fp show ?thesis
      by (simp add: is_number_def)
  qed
qed

lemma no_space_numberToString: "CHR '' '' \<notin> set (numberToString x)"
proof (cases x)
  case NaN
  then show ?thesis by (simp add: numberToString_def)
next
  case (Num q)
  from numberToString_shape [of q] obtain ip fr where
    s: "numberToString (Num q) = ip @ fr" and ip: "list_all is_digit ip"
    and fr: "fr = [] \<or> (\<exists>fp. fr = CHR ''.'' # fp \<and> fp \<noteq> [] \<and> list_all is_digit fp)"
    by blast
  have "CHR '' '' \<notin> set ip"
    using ip by (simp add: is_digit_not_sep)
  moreover have "CHR '' '' \<notin> set fr"
    using fr by (auto simp: is_digit_not_sep)
  ultimately show ?thesis
    using Num s by simp
qed

lemma split_size_string:
  "CHR '' '' \<notin> set u \<Longrightarrow>
     split_on CHR '' '' (numberToString x @ '' '' @ u) = [numberToString x, u]"
  using no_space_numberToString [of x]
  by (simp add: split_on_append_sep split_on_no_sep)

lemma formatSize_pos:
  assumes "0 < bytes"
  shows "\<exists>q. formatSize bytes
           = numberToString (Num q) @ '' ''
             @ string_of_element (element_at sizes (Num (of_nat (floor_log 1024 (nat bytes)))))"
  using assms
  by (auto simp: formatSize_def Math_floor_log_ratio_def Math_pow_def js_div_def
      toFixed2_parseFloat_def Let_def)

lemma element_at_sizes:
  "element_at sizes (Num (of_nat i)) = (if i < 4 then Some (sizes ! i) else None)"
  by (simp add: element_at_def sizes_def)

lemma formatSize_in_range:
  assumes "1 \<le> bytes" and "bytes < 1024 ^ 4"
  shows "floor_log 1024 (nat bytes) < 4" and "well_formed_size (formatSize bytes)"
proof -
  let ?i = "floor_log 1024 (nat bytes)"
  have "1024 ^ ?i \<le> nat bytes"
    using floor_log_bounds [of 1024 "nat bytes"] assms by simp
  also have "nat bytes < 1024 ^ 4"
    using assms by (simp add: nat_less_iff)
  finally have "(1024::nat) ^ ?i < 1024 ^ 4" .
  from power_less_imp_less_exp [OF _ this] show i: "?i < 4" by simp
  from formatSize_pos [of bytes] assms obtain q where
    "formatSize bytes = numberToString (Num q) @ '' '' @ string_of_element (element_at sizes (Num (of_nat ?i)))"
    by auto
  then have f: "formatSize bytes = numberToString (Num q) @ '' '' @ sizes ! ?i"
    using i by (simp add: element_at_sizes string_of_element_def)
  have "?i < length sizes"
    using i by (simp add: sizes_def)
  then have u: "sizes ! ?i \<in> set sizes"
    by (rule nth_mem)
  have "\<forall>u \<in> set sizes. CHR '' '' \<notin> set u"
    by (simp add: sizes_def)
  with u have "CHR '' '' \<notin> set (sizes ! ?i)"
    by blast
  from split_size_string [OF this, of "Num q"] f u show "well_formed_size (formatSize bytes)"
    by (simp add: well_formed_size_def is_number_numberToString)
qed

lemma formatSize_too_large:
  assumes "1024 ^ 4 \<le> bytes"
  shows "4 \<le> floor_log 1024 (nat bytes)" and "\<not> well_formed_size (formatSize bytes)"
proof -
  let ?i = "floor_log 1024 (nat bytes)"
  have pos: "0 < bytes"
    using assms by (rule less_le_trans [rotated]) simp
  have "(1024::nat) ^ 4 \<le> nat bytes"
    using assms by (simp add: le_nat_iff)
  also have "nat bytes < 1024 ^ Suc ?i"
    using floor_log_bounds [of 1024 "nat bytes"] pos by simp
  finally have "(1024::nat) ^ 4 < 1024 ^ Suc ?i" .
  from power_less_imp_less_exp [OF _ this] have "4 < Suc ?i" by simp
  then show i: "4 \<le> ?i" by simp
  from formatSize_pos [OF pos] obtain q where
    "formatSize bytes = numberToString (Num q) @ '' '' @ string_of_element (element_at sizes (Num (of_nat ?i)))"
    by auto
  then have f: "formatSize bytes = numberToString (Num q) @ '' '' @ ''undefined''"
    using i by (simp add: element_at_sizes string_of_element_def)
  have "CHR '' '' \<notin> set ''undefined''" by simp
  from split_size_string [OF this, of "Num q"] f show "\<not> well_formed_size (formatSize bytes)"
    by (simp add: well_formed_size_def sizes_def)
qed

lemma formatSize_negative:
  assumes "bytes < 0"
  shows "formatSize bytes = ''NaN undefined''" and "\<not> well_formed_size (formatSize bytes)"
proof -
  show f: "formatSize bytes = ''NaN undefined''"
    using assms
    by (simp add: formatSize_def Math_floor_log_ratio_def Math_pow_def js_div_def
        toFixed2_parseFloat_def numberToString_def element_at_def string_of_element_def)
  show "\<not> well_formed_size (formatSize bytes)"
    unfolding f by (simp add: well_formed_size_def sizes_def)
qed

section \<open>Claims\<close>

text \<open>
  C1, as the code has it. Browser shape: when no environment or a fully provisioned one
  is cached and the call of the converter on the staged path does not raise (it returns
  text, empty text or nothing), the staged file \<open>/tmp/<filename>\<close> is absent from the
  runtime's filesystem when \<^verbatim>\<open>startConversion\<close> returns; this includes the calls in
  which provisioning fails and nothing is staged. The call of the converter is the one
  on the runtime's filesystem with the file written to the staging path. Server shape:
  the handler removes nothing, the disk it leaves is the disk the upload parser left.
\<close>

theorem C1_staged_file_cleanup:
  "(file_ref s = Some f
      \<and> (pyodide s = None \<or> (\<exists>r. pyodide s = Some r \<and> RegisterWrapper \<in> set (completed r)))
      \<and> (\<forall>e. conv (tempPath (name f))
                ((runtime_files s)(tempPath (name f) \<mapsto> content f)) \<noteq> Raises e)
      \<longrightarrow> tempPath (name f) \<notin> staged_files (startConversion w conv s))
   \<and> snd (eventHandler readFiles convert event disk) = snd (readFiles event upload_options disk)"
proof -
  have "tempPath (name f) \<notin> staged_files (startConversion w conv s)"
    if f: "file_ref s = Some f"
      and ready: "pyodide s = None \<or> (\<exists>r. pyodide s = Some r \<and> RegisterWrapper \<in> set (completed r))"
      and returns: "\<forall>e. conv (tempPath (name f))
                      ((runtime_files s)(tempPath (name f) \<mapsto> content f)) \<noteq> Raises e"
  proof -
    let ?s0 = "s\<lparr>isProcessing := True, resultText := []\<rparr>"
    have "pyodide ?s0 = None \<or> (\<exists>r. pyodide ?s0 = Some r \<and> RegisterWrapper \<in> set (completed r))"
      using ready by simp
    moreover have "\<forall>e. conv (tempPath (name f))
                      ((runtime_files ?s0)(tempPath (name f) \<mapsto> content f)) \<noteq> Raises e"
      using returns by simp
    ultimately have "tempPath (name f) \<notin> staged_files (snd (conversion_try w conv f ?s0))"
      by (rule conversion_try_removes)
    then show ?thesis
      using f by (auto simp: startConversion_def split: prod.splits option.splits)
  qed
  then show ?thesis
    using eventHandler_disk [of readFiles convert event disk] by blast
qed

theorem C1_staged_file_cleanup_witness:
  "file_ref (initial_state\<lparr>file_ref := Some \<lparr>name = ''a.pdf'', content = [1, 2]\<rparr>\<rparr>)
     = Some \<lparr>name = ''a.pdf'', content = [1, 2]\<rparr>
   \<and> pyodide (initial_state\<lparr>file_ref := Some \<lparr>name = ''a.pdf'', content = [1, 2]\<rparr>\<rparr>) = None
   \<and> (\<forall>e. (\<lambda>p fs. case fs p of
                      None \<Rightarrow> Raises (JsError ''FileNotFoundError'' ''No such file'')
                    | Some b \<Rightarrow> Returns (Some ''# a''))
            (tempPath ''a.pdf'')
            ((runtime_files (initial_state\<lparr>file_ref := Some \<lparr>name = ''a.pdf'', content = [1, 2]\<rparr>\<rparr>))
               (tempPath ''a.pdf'' \<mapsto> [1, 2]))
          \<noteq> Raises e)
   \<and> ''/tmp/a.pdf'' \<notin> staged_files
        (startConversion \<lparr>fresh_rid = 1, faults = Map.empty\<rparr>
           (\<lambda>p fs. case fs p of
                      None \<Rightarrow> Raises (JsError ''FileNotFoundError'' ''No such file'')
                    | Some b \<Rightarrow> Returns (Some ''# a''))
           (initial_state\<lparr>file_ref := Some \<lparr>name = ''a.pdf'', content = [1, 2]\<rparr>\<rparr>))"
  using C1_staged_file_cleanup
    [of "initial_state\<lparr>file_ref := Some \<lparr>name = ''a.pdf'', content = [1, 2]\<rparr>\<rparr>"
        "\<lparr>name = ''a.pdf'', content = [1, 2]\<rparr>"
        "\<lambda>p fs. case fs p of
                  None \<Rightarrow> Raises (JsError ''FileNotFoundError'' ''No such file'')
                | Some b \<Rightarrow> Returns (Some ''# a'')"
        "\<lparr>fresh_rid = 1, faults = Map.empty\<rparr>"
        "\<lambda>ev opts d. (Inr [], d)" "\<lambda>p h d. Resolves None" "()" Map.empty]
  by (simp add: initial_state_def tempPath_def runtime_files_def)

text \<open>
  The claim as stated fails in the server shape: after a successful conversion (status
  200) the uploaded temporary file is still on the disk.
\<close>

theorem C1_server_file_remains_counterexample:
  "response_status (fst (eventHandler
      (\<lambda>ev opts d. (Inr [\<lparr>filepath = Some ''/tmp/upload_1'', originalFilename = Some ''a.pdf''\<rparr>],
                     d(''/tmp/upload_1'' \<mapsto> [1, 2])))
      (\<lambda>p h d. Resolves (Some (DocumentResult ''# a''))) () Map.empty)) = Some 200
   \<and> snd (eventHandler
      (\<lambda>ev opts d. (Inr [\<lparr>filepath = Some ''/tmp/upload_1'', originalFilename = Some ''a.pdf''\<rparr>],
                     d(''/tmp/upload_1'' \<mapsto> [1, 2])))
      (\<lambda>p h d. Resolves (Some (DocumentResult ''# a''))) () Map.empty) ''/tmp/upload_1''
     = Some [1, 2]"
  by (simp add: eventHandler_def convert_try_def cleanup_finally_def response_status_def)

text \<open>
  C2. A first call in which \<^verbatim>\<open>loadPyodide()\<close> succeeds and
  \<^verbatim>\<open>loadPackage("micropip")\<close> throws raises the descriptive initialization error, yet
  leaves the runtime in the module variable with no provisioning call completed on it;
  the next call returns that runtime at once and makes no further call, so
  construction is not run again.
\<close>

theorem C2_failed_construction_stays_cached:
  "fst (loadPyodideEnvironment
          \<lparr>fresh_rid = 1, faults = [LoadMicropip \<mapsto> JsError ''Error'' ''network'']\<rparr> initial_state)
     = Inl (JsError ''Error'' ''Failed to initialize Python environment: network'')
   \<and> pyodide (snd (loadPyodideEnvironment
          \<lparr>fresh_rid = 1, faults = [LoadMicropip \<mapsto> JsError ''Error'' ''network'']\<rparr> initial_state))
     = Some \<lparr>rid = 1, completed = [], FS = Map.empty\<rparr>
   \<and> loadPyodideEnvironment \<lparr>fresh_rid = 2, faults = Map.empty\<rparr>
        (snd (loadPyodideEnvironment
          \<lparr>fresh_rid = 1, faults = [LoadMicropip \<mapsto> JsError ''Error'' ''network'']\<rparr> initial_state))
     = (Inr 1,
        snd (loadPyodideEnvironment
          \<lparr>fresh_rid = 1, faults = [LoadMicropip \<mapsto> JsError ''Error'' ''network'']\<rparr> initial_state))
   \<and> calls (snd (loadPyodideEnvironment
          \<lparr>fresh_rid = 1, faults = [LoadMicropip \<mapsto> JsError ''Error'' ''network'']\<rparr> initial_state))
     = [LoadPyodide, LoadMicropip]"
  by (simp add: loadPyodideEnvironment_def provision_def loadPyodide_def runtime_call_def
      and_then_def warn_and_continue_def initial_state_def)

text \<open>
  C3. In the server shape a converter result whose text is empty is returned as a
  success: the handler answers with status 200 and \<open>success = True\<close>, with empty
  \<open>textContent\<close>.
\<close>

theorem C3_server_empty_text_is_success:
  "fst (eventHandler
        (\<lambda>ev opts d. (Inr [\<lparr>filepath = Some ''/tmp/upload_1'', originalFilename = Some ''empty.txt''\<rparr>], d))
        (\<lambda>p hint d. Resolves (Some (DocumentResult ''''))) () Map.empty)
     = Inr \<lparr>success = True, textContent = '''', filename = Some ''empty.txt''\<rparr>
   \<and> response_status (fst (eventHandler
        (\<lambda>ev opts d. (Inr [\<lparr>filepath = Some ''/tmp/upload_1'', originalFilename = Some ''empty.txt''\<rparr>], d))
        (\<lambda>p hint d. Resolves (Some (DocumentResult ''''))) () Map.empty)) = Some 200"
  by (simp add: eventHandler_def convert_try_def cleanup_finally_def response_status_def)

text \<open>
  C4, as the code has it. The staging path is determined by the filename alone:
  distinct filenames give distinct staging paths and equal filenames the same path; and
  for a filename with a dot, the last dot-separated segment of the staging path (the
  extension) is that of the filename.
\<close>

theorem C4_staging_path:
  "(tempPath a = tempPath b \<longleftrightarrow> a = b)
   \<and> (CHR ''.'' \<in> set fname \<longrightarrow>
        pop (split_on CHR ''.'' (tempPath fname)) = pop (split_on CHR ''.'' fname))"
  using split_on_last_segment [of "CHR ''.''" fname "''/tmp/''"]
  by (auto simp: tempPath_def)

theorem C4_staging_path_witness:
  "CHR ''.'' \<in> set ''report.v2.pdf''
   \<and> pop (split_on CHR ''.'' (tempPath ''report.v2.pdf'')) = Some ''pdf''
   \<and> pop (split_on CHR ''.'' ''report.v2.pdf'') = Some ''pdf''"
proof -
  have "pop (split_on CHR ''.'' ''report.v2.pdf'') = Some ''pdf''"
    by (simp add: pop_def)
  then show ?thesis
    using C4_staging_path [of "''x''" "''x''" "''report.v2.pdf''"] by simp
qed

text \<open>
  The claim as stated fails: two different source files with the same name are staged
  to the same path.
\<close>

theorem C4_same_name_same_path_counterexample:
  "\<lparr>name = ''scan.pdf'', content = [1]\<rparr> \<noteq> \<lparr>name = ''scan.pdf'', content = [2]\<rparr>
   \<and> tempPath (name \<lparr>name = ''scan.pdf'', content = [1]\<rparr>)
       = tempPath (name \<lparr>name = ''scan.pdf'', content = [2]\<rparr>)"
  by simp

text \<open>
  C5. Starting with no cached environment, if the first call of the provisioner
  returns a handle, then that call and any number of further calls, whatever the outside
  world does during them, all return this same handle; the state after the last call is
  the state after the first, and the calls made into the runtime are the eight
  construction calls, each made once.
\<close>

theorem C5_ensureReady_idempotent:
  assumes "pyodide s = None"
    and "fst (loadPyodideEnvironment w s) = Inr h"
  shows "ensureReady_calls (w # ws) s
           = (replicate (Suc (length ws)) (Inr h), snd (loadPyodideEnvironment w s))
         \<and> calls (snd (loadPyodideEnvironment w s)) = calls s @ construction_steps"
proof -
  obtain s1 where l: "loadPyodideEnvironment w s = (Inr h, s1)"
    using assms(2) by (cases "loadPyodideEnvironment w s") auto
  from loadPyodideEnvironment_success [OF assms(1) l]
  obtain r where c: "calls s1 = calls s @ construction_steps"
    and r: "pyodide s1 = Some r" "rid r = h"
    by auto
  from ensureReady_calls_cached [OF r(1), of ws] r(2) l c show ?thesis
    by simp
qed

theorem C5_ensureReady_idempotent_witness:
  "pyodide initial_state = None
   \<and> fst (loadPyodideEnvironment \<lparr>fresh_rid = 1, faults = Map.empty\<rparr> initial_state) = Inr 1
   \<and> fst (ensureReady_calls
            [\<lparr>fresh_rid = 1, faults = Map.empty\<rparr>,
             \<lparr>fresh_rid = 2, faults = [LoadPyodide \<mapsto> JsError ''Error'' ''offline'']\<rparr>,
             \<lparr>fresh_rid = 3, faults = Map.empty\<rparr>] initial_state)
       = [Inr 1, Inr 1, Inr 1]
   \<and> calls (snd (loadPyodideEnvironment \<lparr>fresh_rid = 1, faults = Map.empty\<rparr> initial_state))
       = construction_steps"
proof -
  have h1: "pyodide initial_state = None"
    by (simp add: initial_state_def)
  have h2: "fst (loadPyodideEnvironment \<lparr>fresh_rid = 1, faults = Map.empty\<rparr> initial_state) = Inr 1"
    by (simp add: loadPyodideEnvironment_def provision_def loadPyodide_def runtime_call_def
        and_then_def warn_and_continue_def initial_state_def)
  have c: "calls initial_state = []"
    by (simp add: initial_state_def)
  from C5_ensureReady_idempotent [OF h1 h2,
      of "[\<lparr>fresh_rid = 2, faults = [LoadPyodide \<mapsto> JsError ''Error'' ''offline'']\<rparr>,
           \<lparr>fresh_rid = 3, faults = Map.empty\<rparr>]"] h1 h2 c
  show ?thesis by (simp add: numeral_eq_Suc)
qed

text \<open>
  C6. For every original filename the suggested output filename strips only the last
  extension segment and appends \<open>.md\<close>: a name \<open>stem.ext\<close> whose \<open>ext\<close> holds no dot
  becomes \<open>stem.md\<close>, and a name with no dot at all gets \<open>.md\<close> appended to the
  full name. In particular \<open>report.v2.pdf\<close> gives \<open>report.v2.md\<close> and \<open>README\<close>
  gives \<open>README.md\<close>.
\<close>

theorem C6_suggested_filename:
  "(CHR ''.'' \<notin> set ext \<longrightarrow> suggestedFilename (stem @ ''.'' @ ext) = stem @ ''.md'')
   \<and> (CHR ''.'' \<notin> set fname \<longrightarrow> suggestedFilename fname = fname @ ''.md'')
   \<and> suggestedFilename ''report.v2.pdf'' = ''report.v2.md''
   \<and> suggestedFilename ''README'' = ''README.md''"
proof -
  have "suggestedFilename ''report.v2.pdf'' = ''report.v2.md''"
    by (simp add: suggestedFilename_def)
  moreover have "suggestedFilename ''README'' = ''README.md''"
    by (simp add: suggestedFilename_def)
  ultimately show ?thesis
    using suggestedFilename_ext [of ext stem] suggestedFilename_no_ext [of fname] by blast
qed

theorem C6_suggested_filename_witness:
  "CHR ''.'' \<notin> set ''gz'' \<and> suggestedFilename ''archive.tar.gz'' = ''archive.tar.md''
   \<and> CHR ''.'' \<notin> set ''Makefile'' \<and> suggestedFilename ''Makefile'' = ''Makefile.md''"
  using C6_suggested_filename [of "''gz''" "''archive.tar''" "''Makefile''"] by simp

text \<open>
  C7. For the extension-less filename \<open>README\<close> the server shape computes the format
  hint \<open>.README\<close> and passes it to the converter.
\<close>

theorem C7_hint_from_extensionless_name:
  "fileExtension (Some ''README'') = Some ''.README''
   \<and> fst (eventHandler
        (\<lambda>ev opts d. (Inr [\<lparr>filepath = Some ''/tmp/upload_1'', originalFilename = Some ''README''\<rparr>], d))
        (\<lambda>p hint d. Resolves (Some (DocumentResult
            (case hint of None \<Rightarrow> ''no hint'' | Some h \<Rightarrow> ''hint '' @ h))))
        () Map.empty)
     = Inr \<lparr>success = True, textContent = ''hint .README'', filename = Some ''README''\<rparr>"
  by (simp add: fileExtension_def pop_def eventHandler_def convert_try_def cleanup_finally_def)




text \<open>
  C9. \<open>formatSize\<close> maps 0 bytes to \<open>0 B\<close> and 1536 bytes to \<open>1.5 KB\<close>.
\<close>

theorem C9_formatSize_examples:
  "formatSize 0 = ''0 B'' \<and> formatSize 1536 = ''1.5 KB''"
  by code_simp

text \<open>
  C10. For a byte count from 1 to below \<open>1024^4\<close> the unit index is an index inside
  the four-element unit array and the result is a well-formed size string, as is the
  result for 0. For a byte count of at least \<open>1024^4\<close> the index is outside the array,
  for a negative one it is \<^verbatim>\<open>NaN\<close>; in both cases the lookup gives no unit and the
  result is not a well-formed size string.
\<close>

theorem C10_formatSize_range:
  "(1 \<le> bytes \<and> bytes < 1024 ^ 4 \<longrightarrow>
      (\<exists>i < length sizes. Math_floor_log_ratio bytes 1024 = Num (of_nat i)
          \<and> element_at sizes (Math_floor_log_ratio bytes 1024) = Some (sizes ! i))
      \<and> well_formed_size (formatSize bytes))
   \<and> (1024 ^ 4 \<le> bytes \<longrightarrow>
      element_at sizes (Math_floor_log_ratio bytes 1024) = None
      \<and> \<not> well_formed_size (formatSize bytes))
   \<and> (bytes < 0 \<longrightarrow>
      Math_floor_log_ratio bytes 1024 = NaN
      \<and> element_at sizes (Math_floor_log_ratio bytes 1024) = None
      \<and> \<not> well_formed_size (formatSize bytes))
   \<and> well_formed_size (formatSize 0)"
proof -
  have a: "(\<exists>i < length sizes. Math_floor_log_ratio bytes 1024 = Num (of_nat i)
          \<and> element_at sizes (Math_floor_log_ratio bytes 1024) = Some (sizes ! i))
      \<and> well_formed_size (formatSize bytes)"
    if "1 \<le> bytes" "bytes < 1024 ^ 4"
  proof -
    from formatSize_in_range [OF that]
    have i: "floor_log 1024 (nat bytes) < 4" and w: "well_formed_size (formatSize bytes)" .
    have m: "Math_floor_log_ratio bytes 1024 = Num (of_nat (floor_log 1024 (nat bytes)))"
      using that by (simp add: Math_floor_log_ratio_def)
    have "floor_log 1024 (nat bytes) < length sizes"
      using i by (simp add: sizes_def)
    with m i w show ?thesis
      by (auto simp: element_at_sizes)
  qed
  have b: "element_at sizes (Math_floor_log_ratio bytes 1024) = None
      \<and> \<not> well_formed_size (formatSize bytes)"
    if "1024 ^ 4 \<le> bytes"
  proof -
    from formatSize_too_large [OF that]
    have i: "4 \<le> floor_log 1024 (nat bytes)" and w: "\<not> well_formed_size (formatSize bytes)" .
    have "0 < bytes"
      using that by (rule less_le_trans [rotated]) simp
    then have "Math_floor_log_ratio bytes 1024 = Num (of_nat (floor_log 1024 (nat bytes)))"
      by (simp add: Math_floor_log_ratio_def)
    with i w show ?thesis
      by (simp add: element_at_sizes)
  qed
  have c: "Math_floor_log_ratio bytes 1024 = NaN
      \<and> element_at sizes (Math_floor_log_ratio bytes 1024) = None
      \<and> \<not> well_formed_size (formatSize bytes)"
    if "bytes < 0"
    using that formatSize_negative(2) [OF that]
    by (simp add: Math_floor_log_ratio_def element_at_def)
  have d: "well_formed_size (formatSize 0)"
    by (simp add: formatSize_def well_formed_size_def is_number_def is_digit_def sizes_def)
  from a b c d show ?thesis by blast
qed

theorem C10_formatSize_range_witness:
  "(1::int) \<le> 1536 \<and> (1536::int) < 1024 ^ 4 \<and> well_formed_size (formatSize 1536)
   \<and> (1024::int) ^ 4 \<le> 1024 ^ 4 \<and> \<not> well_formed_size (formatSize (1024 ^ 4))
   \<and> (- 5::int) < 0 \<and> \<not> well_formed_size (formatSize (- 5))"
proof -
  have a: "(1::int) \<le> 1536 \<and> (1536::int) < 1024 ^ 4" by simp
  have b: "(1024::int) ^ 4 \<le> 1024 ^ 4" by simp
  have c: "(- 5::int) < 0" by simp
  from a C10_formatSize_range [of 1536] have "well_formed_size (formatSize 1536)"
    by blast
  moreover from b C10_formatSize_range [of "1024 ^ 4"]
  have "\<not> well_formed_size (formatSize (1024 ^ 4))"
    by blast
  moreover from c C10_formatSize_range [of "- 5"]
  have "\<not> well_formed_size (formatSize (- 5))"
    by blast
  ultimately show ?thesis
    using a b c by blast
qed

end
